theory Spec2Isabelle
  imports Complex_Main
begin

section \<open>Python's \<open>str\<close> on integers\<close>

text \<open>
  The notebook turns integers into strings twice: the passage ids
  (\<^verbatim>\<open>ids=[str(i) for i in documents.id]\<close>) and the random suffix of the index name
  (an f-string). Python integers are unbounded, so they are \<open>int\<close> here, and \<open>str\<close> is
  the decimal rendering with a leading minus sign for negative numbers.
\<close>

definition digit_char :: "nat \<Rightarrow> char" where
  "digit_char d = ''0123456789'' ! d"

fun str_nat :: "nat \<Rightarrow> string" where
  "str_nat n = (if n < 10 then [digit_char n] else str_nat (n div 10) @ [digit_char (n mod 10)])"

declare str_nat.simps [simp del]

definition str_int :: "int \<Rightarrow> string" where
  "str_int i = (if i < 0 then CHR ''-'' # str_nat (nat (- i)) else str_nat (nat i))"

text \<open>Reading a decimal string back; used only to show that \<open>str\<close> is injective.\<close>

definition digit_val :: "char \<Rightarrow> nat" where
  "digit_val c = of_char c - 48"

definition nat_of_str :: "string \<Rightarrow> nat" where
  "nat_of_str s = foldl (\<lambda>a c. 10 * a + digit_val c) 0 s"

section \<open>The corpus\<close>

text \<open>
  A row of \<^verbatim>\<open>psgs.tsv\<close> as the notebook reads it: the columns \<^verbatim>\<open>id\<close>, \<^verbatim>\<open>title\<close> and
  \<^verbatim>\<open>text\<close>. The notebook adds the column \<^verbatim>\<open>indextext\<close>:
  \<^verbatim>\<open>documents['indextext'] = documents['title'].astype(str) + "\n" + documents['text']\<close>
\<close>

record passage =
  psg_id :: int
  psg_title :: string
  psg_text :: string

definition indextext :: "passage \<Rightarrow> string" where
  "indextext p = psg_title p @ [CHR 0x0A] @ psg_text p"

section \<open>The providers\<close>

text \<open>
  The embedding model and the language model are external. They are parameters of the
  model: a call either fails with a message or returns its value. Vectors are sequences
  of floats in the code; the model takes them as sequences of reals.
\<close>

type_synonym vector = "real list"

datatype ModelTypes = GRANITE_13B_INSTRUCT_V2

record gen_params =
  DECODING_METHOD :: string
  MIN_NEW_TOKENS :: nat
  MAX_NEW_TOKENS :: nat

record providers =
  encode :: "string \<Rightarrow> string \<Rightarrow> string + vector"
  generate :: "ModelTypes \<Rightarrow> gen_params \<Rightarrow> string \<Rightarrow> string + string"

text \<open>\<^verbatim>\<open>emb_func = SentenceTransformerEmbeddings(model_name="all-MiniLM-L6-v2")\<close>\<close>

record embeddings =
  model_name :: string

definition emb_func :: embeddings where
  "emb_func = \<lparr>model_name = ''all-MiniLM-L6-v2''\<rparr>"

text \<open>
  \<^verbatim>\<open>parameters = {DECODING_METHOD: 'greedy', MIN_NEW_TOKENS: 1, MAX_NEW_TOKENS: 50}\<close>
\<close>

definition parameters :: gen_params where
  "parameters = \<lparr>DECODING_METHOD = ''greedy'', MIN_NEW_TOKENS = 1, MAX_NEW_TOKENS = 50\<rparr>"

definition model_id :: ModelTypes where
  "model_id = GRANITE_13B_INSTRUCT_V2"

text \<open>
  \<^verbatim>\<open>watsonx_granite = WatsonxLLM(model_id=model_id.value, url=..., apikey=...,
       project_id=project_id, params=parameters)\<close>; the credentials are left out.
\<close>

record WatsonxLLM =
  llm_model_id :: ModelTypes
  llm_params :: gen_params

definition watsonx_granite :: WatsonxLLM where
  "watsonx_granite = \<lparr>llm_model_id = model_id, llm_params = parameters\<rparr>"

section \<open>The vector store\<close>

text \<open>
  Modelled from the spec: the Vector Store is the external Elasticsearch service, whose
  code is not part of the repository. The spec gives its contract:
  \<open>upsert(id, vector, text, metadata)\<close> keyed by the id, and
  \<open>search(vector, k, distance = dot-product)\<close> returning the ranked items. The state of
  the service is a map from index names to indexes; an index is a list of documents
  under distinct keys, in the order of their first insertion.
\<close>

record metadata =
  md_title :: string
  md_id :: int

record indexed_doc =
  doc_vector :: vector
  doc_text :: string
  doc_metadata :: metadata

type_synonym es_index = "(string \<times> indexed_doc) list"

type_synonym es_state = "string \<rightharpoonup> es_index"

text \<open>
  Modelled from the spec: \<^verbatim>\<open>es_connection.indices.exists(index=...)\<close> of the external
  service; an index generation with the name exists.
\<close>

definition indices_exists :: "es_state \<Rightarrow> string \<Rightarrow> bool" where
  "indices_exists es name = (es name \<noteq> None)"

text \<open>
  Modelled from the spec: \<^verbatim>\<open>es_connection.indices.delete(index=...)\<close> of the external
  service; the index generation is dropped.
\<close>

definition indices_delete :: "es_state \<Rightarrow> string \<Rightarrow> es_state" where
  "indices_delete es name = es(name := None)"

text \<open>
  Modelled from the spec: \<open>upsert\<close> of the external service; a document under a key that
  the index holds replaces the document there, a document under a new key is added.
\<close>

fun upsert :: "string \<Rightarrow> indexed_doc \<Rightarrow> es_index \<Rightarrow> es_index" where
  "upsert k d [] = [(k, d)]"
| "upsert k d ((k', d') # ix) = (if k = k' then (k, d) # ix else (k', d') # upsert k d ix)"

text \<open>Modelled from the spec: \<open>upsert(items)\<close> of the external service, item by item.\<close>

fun bulk :: "(string \<times> indexed_doc) list \<Rightarrow> es_index \<Rightarrow> es_index" where
  "bulk [] ix = ix"
| "bulk ((k, d) # items) ix = bulk items (upsert k d ix)"

text \<open>
  Modelled from the spec: \<^verbatim>\<open>es_connection.count(index=...)["count"]\<close> of the external
  service, the number of documents of the index; a missing index is an error.
\<close>

definition es_count :: "es_state \<Rightarrow> string \<Rightarrow> string + nat" where
  "es_count es name =
     (case es name of None \<Rightarrow> Inl ''index_not_found_exception'' | Some ix \<Rightarrow> Inr (length ix))"

section \<open>The Indexing Pipeline\<close>

text \<open>
  \<^verbatim>\<open>indexName = f"lab-langchain-test-{random.randint(0,2000)}"\<close>
  The random draw is an input of the model: \<open>random.randint(0, 2000)\<close> returns an
  integer \<open>r\<close> with \<open>0 \<le> r \<le> 2000\<close>, both ends included.
\<close>

definition randint_range :: "int set" where
  "randint_range = {0..2000}"

definition indexName :: "int \<Rightarrow> string" where
  "indexName r = ''lab-langchain-test-'' @ str_int r"

text \<open>
  \<^verbatim>\<open>knowledge_base = ElasticsearchStore(es_connection=es_connection, index_name=indexName,
       embedding=emb_func, strategy=ElasticsearchStore.ApproxRetrievalStrategy(),
       distance_strategy="DOT_PRODUCT")\<close>
\<close>

record ElasticsearchStore =
  index_name :: string
  embedding :: embeddings
  strategy :: string
  distance_strategy :: string

definition knowledge_base :: "string \<Rightarrow> ElasticsearchStore" where
  "knowledge_base name =
     \<lparr>index_name = name, embedding = emb_func, strategy = ''ApproxRetrievalStrategy'',
      distance_strategy = ''DOT_PRODUCT''\<rparr>"

text \<open>
  Modelled from the spec: the library's embedding of a list of texts. The store embeds
  every text with its own embedding function; the first failure aborts the whole batch.
\<close>

fun embed_documents :: "providers \<Rightarrow> embeddings \<Rightarrow> string list \<Rightarrow> string + vector list" where
  "embed_documents P e [] = Inr []"
| "embed_documents P e (t # ts) =
     (case encode P (model_name e) t of
        Inl msg \<Rightarrow> Inl msg
      | Inr v \<Rightarrow>
          (case embed_documents P e ts of
             Inl msg \<Rightarrow> Inl msg
           | Inr vs \<Rightarrow> Inr (v # vs)))"

text \<open>
  The three list arguments of the notebook's call of \<open>add_texts\<close>:
  \<^verbatim>\<open>texts=documents.indextext.tolist()\<close>,
  \<^verbatim>\<open>metadatas=[{'title': title, 'id': doc_id} for (title, doc_id) in zip(documents.title, documents.id)]\<close>,
  \<^verbatim>\<open>ids=[str(i) for i in documents.id]\<close>.
\<close>

definition texts_arg :: "passage list \<Rightarrow> string list" where
  "texts_arg documents = map indextext documents"

definition metadatas_arg :: "passage list \<Rightarrow> metadata list" where
  "metadatas_arg documents =
     map (\<lambda>(title, doc_id). \<lparr>md_title = title, md_id = doc_id\<rparr>)
       (zip (map psg_title documents) (map psg_id documents))"

definition ids_arg :: "passage list \<Rightarrow> string list" where
  "ids_arg documents = map str_int (map psg_id documents)"

text \<open>
  Modelled from the spec: the documents that the library's \<open>add_texts\<close> sends to the
  service, one per text: the id as the key, with the vector, the text and the metadata.
\<close>

definition make_items ::
  "string list \<Rightarrow> vector list \<Rightarrow> string list \<Rightarrow> metadata list \<Rightarrow> (string \<times> indexed_doc) list" where
  "make_items ids vs texts metadatas =
     map (\<lambda>(i, v, t, m). (i, \<lparr>doc_vector = v, doc_text = t, doc_metadata = m\<rparr>))
       (zip ids (zip vs (zip texts metadatas)))"

text \<open>
  Modelled from the spec: \<open>add_texts\<close> is the library's method (not in the repository).
  By the spec it computes the embedding of each text and upserts one document per text,
  keyed by the given id; the index is created when it does not exist. It returns the
  ids. A failure of the embedding leaves the state as it was at the call.
\<close>

definition add_texts ::
  "providers \<Rightarrow> ElasticsearchStore \<Rightarrow> string list \<Rightarrow> metadata list \<Rightarrow> string list \<Rightarrow>
     es_state \<Rightarrow> es_state \<times> (string + string list)" where
  "add_texts P kb texts metadatas ids es =
     (case embed_documents P (embedding kb) texts of
        Inl msg \<Rightarrow> (es, Inl msg)
      | Inr vs \<Rightarrow>
          (let ix = (case es (index_name kb) of None \<Rightarrow> [] | Some ix \<Rightarrow> ix)
           in (es(index_name kb \<mapsto> bulk (make_items ids vs texts metadatas) ix), Inr ids)))"

text \<open>
  The indexing cell:
  \<^verbatim>\<open>
  if es_connection.indices.exists(index=indexName):
      es_connection.indices.delete(index=indexName)
  _ = knowledge_base.add_texts(texts=..., metadatas=..., index_name=indexName, ids=...)
  \<close>
\<close>

definition index_documents ::
  "providers \<Rightarrow> ElasticsearchStore \<Rightarrow> passage list \<Rightarrow> es_state \<Rightarrow> es_state \<times> (string + string list)" where
  "index_documents P kb documents es =
     (let es1 = (if indices_exists es (index_name kb) then indices_delete es (index_name kb) else es)
      in add_texts P kb (texts_arg documents) (metadatas_arg documents) (ids_arg documents) es1)"

text \<open>\<^verbatim>\<open>doc_count = es_connection.count(index=indexName)["count"]\<close> after a run.\<close>

definition doc_count :: "providers \<Rightarrow> ElasticsearchStore \<Rightarrow> passage list \<Rightarrow> es_state \<Rightarrow> string + nat" where
  "doc_count P kb documents es = es_count (fst (index_documents P kb documents es)) (index_name kb)"

section \<open>The Query Pipeline\<close>

text \<open>
  Modelled from the spec: the similarity of the Vector Store (the external service) under
  the distance \<open>DOT_PRODUCT\<close>, the dot product of two vectors.
\<close>

definition dot_product :: "vector \<Rightarrow> vector \<Rightarrow> real" where
  "dot_product u v = sum_list (map2 (*) u v)"

text \<open>
  Modelled from the spec: similarity search of the Vector Store (the external service).
  By the spec it returns the top \<open>k\<close> documents of the index ranked by the dot product of
  their vector with the query vector, highest first.
\<close>

definition similarity_search :: "es_index \<Rightarrow> vector \<Rightarrow> nat \<Rightarrow> indexed_doc list" where
  "similarity_search ix qv k = take k (sort_key (\<lambda>d. - dot_product qv (doc_vector d)) (map snd ix))"

text \<open>
  Modelled from the spec: the search call of the external service on a named index. A
  search in an index that does not exist is a failed call.
\<close>

definition es_search :: "es_state \<Rightarrow> string \<Rightarrow> vector \<Rightarrow> nat \<Rightarrow> string + indexed_doc list" where
  "es_search es name qv k =
     (case es name of
        None \<Rightarrow> Inl ''index_not_found_exception''
      | Some ix \<Rightarrow> Inr (similarity_search ix qv k))"

text \<open>The schemas \<open>Document\<close> and \<open>QueryResponse\<close> of the OpenAPI document.\<close>

record Document =
  page_content :: string
  metadata :: metadata
  doc_type :: string

record QueryResponse =
  query :: string
  result :: string
  source_documents :: "Document list"

text \<open>
  Modelled from the spec: the library turns a retrieved document into a \<open>Document\<close>
  entry with its text and its metadata.
\<close>

definition to_document :: "indexed_doc \<Rightarrow> Document" where
  "to_document d = \<lparr>page_content = doc_text d, metadata = doc_metadata d, doc_type = ''Document''\<rparr>"

text \<open>
  \<^verbatim>\<open>qa = RetrievalQA.from_chain_type(llm=watsonx_granite, chain_type="stuff",
         retriever=knowledge_base.as_retriever(), return_source_documents=True)\<close>
  The number \<open>k\<close> of documents to retrieve, the prompt template of the "stuff" chain
  (a function of the context and the question) and the separator between the documents
  of the context are the library's defaults; the source does not fix them, so they are
  parameters.
\<close>

record VectorStoreRetriever =
  vectorstore :: ElasticsearchStore
  search_k :: nat

text \<open>
  Modelled from the spec: the library's \<open>as_retriever\<close>; the retriever searches the store
  it was made from.
\<close>

definition as_retriever :: "nat \<Rightarrow> ElasticsearchStore \<Rightarrow> VectorStoreRetriever" where
  "as_retriever k kb = \<lparr>vectorstore = kb, search_k = k\<rparr>"

record RetrievalQA =
  llm :: WatsonxLLM
  chain_type :: string
  retriever :: VectorStoreRetriever
  prompt_template :: "string \<Rightarrow> string \<Rightarrow> string"
  document_separator :: string

text \<open>Modelled from the spec: the library's constructor of the chain; it keeps its arguments.\<close>

definition from_chain_type ::
  "(string \<Rightarrow> string \<Rightarrow> string) \<Rightarrow> string \<Rightarrow> WatsonxLLM \<Rightarrow> string \<Rightarrow> VectorStoreRetriever \<Rightarrow> RetrievalQA" where
  "from_chain_type template sep l ct r =
     \<lparr>llm = l, chain_type = ct, retriever = r, prompt_template = template, document_separator = sep\<rparr>"

definition qa_chain :: "(string \<Rightarrow> string \<Rightarrow> string) \<Rightarrow> string \<Rightarrow> nat \<Rightarrow> string \<Rightarrow> RetrievalQA" where
  "qa_chain template sep k name =
     from_chain_type template sep watsonx_granite ''stuff'' (as_retriever k (knowledge_base name))"

text \<open>Python's \<open>sep.join(xs)\<close>.\<close>

fun join :: "string \<Rightarrow> string list \<Rightarrow> string" where
  "join sep [] = []"
| "join sep [x] = x"
| "join sep (x # y # ys) = x @ sep @ join sep (y # ys)"

text \<open>The calls that a run makes to the external providers, in order.\<close>

datatype call =
  EmbedCall string string
| SearchCall string vector nat
| GenerateCall ModelTypes gen_params string

text \<open>
  Modelled from the spec: the call \<^verbatim>\<open>qa({"query": question})\<close> of the chain, whose code is
  the library's. The spec gives its steps: embed the query with the embedding function
  of the store, retrieve the top \<open>k\<close> documents, build the prompt from the texts of the
  retrieved documents in ranked order and the query, call the language model with the
  fixed generation parameters, and return the query, the generated text and the
  retrieved documents. A failed provider call ends the run with its message; an empty
  retrieval does not.
\<close>

definition qa :: "providers \<Rightarrow> RetrievalQA \<Rightarrow> es_state \<Rightarrow> string \<Rightarrow> call list \<times> (string + QueryResponse)" where
  "qa P chain es question =
     (let kb = vectorstore (retriever chain);
          k = search_k (retriever chain);
          m = model_name (embedding kb);
          embed_call = EmbedCall m question
      in case encode P m question of
           Inl msg \<Rightarrow> ([embed_call], Inl msg)
         | Inr qv \<Rightarrow>
             (let search_call = SearchCall (index_name kb) qv k
              in case es_search es (index_name kb) qv k of
                   Inl msg \<Rightarrow> ([embed_call, search_call], Inl msg)
                 | Inr hits \<Rightarrow>
                     (let docs = map to_document hits;
                          context = join (document_separator chain) (map page_content docs);
                          prompt = prompt_template chain context question;
                          l = llm chain;
                          calls = [embed_call, search_call,
                                   GenerateCall (llm_model_id l) (llm_params l) prompt]
                      in case generate P (llm_model_id l) (llm_params l) prompt of
                           Inl msg \<Rightarrow> (calls, Inl msg)
                         | Inr answer \<Rightarrow>
                             (calls, Inr \<lparr>query = question, result = answer, source_documents = docs\<rparr>))))"

section \<open>The Query Endpoint\<close>

text \<open>
  JSON values; an object is the list of its members, and of two members with one name
  the first counts.
\<close>

datatype json =
  JNull
| JBool bool
| JNumber real
| JString string
| JArray "json list"
| JObject "(string \<times> json) list"

definition is_string :: "json \<Rightarrow> bool" where
  "is_string j = (case j of JString _ \<Rightarrow> True | _ \<Rightarrow> False)"

definition is_integer :: "json \<Rightarrow> bool" where
  "is_integer j = (case j of JNumber x \<Rightarrow> of_int \<lfloor>x\<rfloor> = x | _ \<Rightarrow> False)"

text \<open>
  A property that a schema lists under \<open>properties\<close> constrains the member only when the
  member is present; a property under \<open>required\<close> must be present.
\<close>

definition optional_property :: "(string \<times> json) list \<Rightarrow> string \<Rightarrow> (json \<Rightarrow> bool) \<Rightarrow> bool" where
  "optional_property ms name ok = (case map_of ms name of None \<Rightarrow> True | Some v \<Rightarrow> ok v)"

definition required_property :: "(string \<times> json) list \<Rightarrow> string \<Rightarrow> (json \<Rightarrow> bool) \<Rightarrow> bool" where
  "required_property ms name ok = (case map_of ms name of None \<Rightarrow> False | Some v \<Rightarrow> ok v)"

text \<open>
  \<^verbatim>\<open>"QueryRequest": {"type": "object",
      "properties": {"query": {"type": "string", ...}}, "required": ["query"]}\<close>
\<close>

definition valid_QueryRequest :: "json \<Rightarrow> bool" where
  "valid_QueryRequest j = (case j of JObject ms \<Rightarrow> required_property ms ''query'' is_string | _ \<Rightarrow> False)"

definition request_query :: "json \<Rightarrow> string option" where
  "request_query j =
     (case j of
        JObject ms \<Rightarrow> (case map_of ms ''query'' of Some (JString q) \<Rightarrow> Some q | _ \<Rightarrow> None)
      | _ \<Rightarrow> None)"

text \<open>The schema of \<open>metadata\<close> inside \<open>Document\<close>: \<open>title\<close> a string, \<open>id\<close> an integer.\<close>

definition valid_metadata :: "json \<Rightarrow> bool" where
  "valid_metadata j =
     (case j of
        JObject ms \<Rightarrow> optional_property ms ''title'' is_string \<and> optional_property ms ''id'' is_integer
      | _ \<Rightarrow> False)"

definition valid_Document :: "json \<Rightarrow> bool" where
  "valid_Document j =
     (case j of
        JObject ms \<Rightarrow>
          optional_property ms ''page_content'' is_string \<and>
          optional_property ms ''metadata'' valid_metadata \<and>
          optional_property ms ''type'' is_string
      | _ \<Rightarrow> False)"

definition valid_documents :: "json \<Rightarrow> bool" where
  "valid_documents j = (case j of JArray js \<Rightarrow> list_all valid_Document js | _ \<Rightarrow> False)"

definition valid_QueryResponse :: "json \<Rightarrow> bool" where
  "valid_QueryResponse j =
     (case j of
        JObject ms \<Rightarrow>
          optional_property ms ''query'' is_string \<and>
          optional_property ms ''result'' is_string \<and>
          optional_property ms ''source_documents'' valid_documents
      | _ \<Rightarrow> False)"

definition valid_ErrorResponse :: "json \<Rightarrow> bool" where
  "valid_ErrorResponse j = (case j of JObject ms \<Rightarrow> optional_property ms ''detail'' is_string | _ \<Rightarrow> False)"

text \<open>
  Modelled from the spec: the bodies of the responses of the handler (not in the
  repository), as the spec gives them for 200 and 500.
\<close>

definition json_of_metadata :: "metadata \<Rightarrow> json" where
  "json_of_metadata m = JObject [(''title'', JString (md_title m)), (''id'', JNumber (of_int (md_id m)))]"

definition json_of_Document :: "Document \<Rightarrow> json" where
  "json_of_Document d =
     JObject [(''page_content'', JString (page_content d)),
              (''metadata'', json_of_metadata (metadata d)),
              (''type'', JString (doc_type d))]"

definition json_of_QueryResponse :: "QueryResponse \<Rightarrow> json" where
  "json_of_QueryResponse r =
     JObject [(''query'', JString (query r)),
              (''result'', JString (result r)),
              (''source_documents'', JArray (map json_of_Document (source_documents r)))]"

definition json_of_ErrorResponse :: "string \<Rightarrow> json" where
  "json_of_ErrorResponse msg = JObject [(''detail'', JString msg)]"

record http_request =
  headers :: "(string \<times> string) list"
  body :: "json option"

datatype response =
  Unauthorized
| Rejected
| Success QueryResponse
| ServerError string

text \<open>
  Modelled from the spec: the status of the handler's responses. The OpenAPI document
  declares the responses 200, 401 and 500. It declares none for a request that fails
  validation; the spec asks for "400-class behavior" there, for which 400 stands.
\<close>

fun status_code :: "response \<Rightarrow> nat" where
  "status_code Unauthorized = 401"
| "status_code Rejected = 400"
| "status_code (Success r) = 200"
| "status_code (ServerError msg) = 500"

text \<open>Modelled from the spec: the body of the handler's responses; 401 has none.\<close>

fun response_body :: "response \<Rightarrow> json option" where
  "response_body Unauthorized = None"
| "response_body Rejected = None"
| "response_body (Success r) = Some (json_of_QueryResponse r)"
| "response_body (ServerError msg) = Some (json_of_ErrorResponse msg)"

text \<open>
  Modelled from the spec: the handler's check of the API key. The header is the one of
  \<^verbatim>\<open>"ApiKeyAuth": {"type": "apiKey", "in": "header", "name": "apikey"}\<close>;
  the set of the keys that the deployment accepts is a parameter.
\<close>

definition authorized :: "string set \<Rightarrow> http_request \<Rightarrow> bool" where
  "authorized api_keys req =
     (case map_of (headers req) ''apikey'' of None \<Rightarrow> False | Some key \<Rightarrow> key \<in> api_keys)"

text \<open>
  Modelled from the spec: the handler of \<open>POST /query\<close> (operation \<open>runQuery\<close>), of which
  the repository holds the OpenAPI declaration only. By the spec it requires a valid API
  key in the header (401 otherwise), rejects a request whose \<open>query\<close> is missing or is
  the empty string before any provider call, runs the Query Pipeline once, and answers
  200 with the QueryResponse, or 500 with the message of the failure. A body is checked
  against the schema \<open>QueryRequest\<close> of the OpenAPI document; the schema itself sets no
  minimal length, the rejection of the empty query is the spec's.
\<close>

definition runQuery ::
  "string set \<Rightarrow> providers \<Rightarrow> RetrievalQA \<Rightarrow> es_state \<Rightarrow> http_request \<Rightarrow> call list \<times> response" where
  "runQuery api_keys P chain es req =
     (if \<not> authorized api_keys req then ([], Unauthorized)
      else case body req of
             None \<Rightarrow> ([], Rejected)
           | Some j \<Rightarrow>
               (if \<not> valid_QueryRequest j then ([], Rejected)
                else case request_query j of
                       None \<Rightarrow> ([], Rejected)
                     | Some q \<Rightarrow>
                         (if q = [] then ([], Rejected)
                          else case qa P chain es q of
                                 (calls, Inl msg) \<Rightarrow> (calls, ServerError msg)
                               | (calls, Inr r) \<Rightarrow> (calls, Success r))))"

section \<open>Concrete inputs\<close>

text \<open>Providers that always answer, and providers whose language model always fails.\<close>

definition stub_providers :: "vector \<Rightarrow> string \<Rightarrow> providers" where
  "stub_providers v r = \<lparr>encode = (\<lambda>_ _. Inr v), generate = (\<lambda>_ _ _. Inr r)\<rparr>"

definition failing_llm :: "vector \<Rightarrow> string \<Rightarrow> providers" where
  "failing_llm v msg = \<lparr>encode = (\<lambda>_ _. Inr v), generate = (\<lambda>_ _ _. Inl msg)\<rparr>"

definition two_passages :: "passage list" where
  "two_passages =
     [\<lparr>psg_id = 1, psg_title = ''A'', psg_text = ''Paris is the capital of France.''\<rparr>,
      \<lparr>psg_id = 2, psg_title = ''B'', psg_text = ''Tokyo is the capital of Japan.''\<rparr>]"

definition same_id_passages :: "passage list" where
  "same_id_passages =
     [\<lparr>psg_id = 1, psg_title = ''A'', psg_text = ''Paris is the capital of France.''\<rparr>,
      \<lparr>psg_id = 1, psg_title = ''B'', psg_text = ''Tokyo is the capital of Japan.''\<rparr>]"

text \<open>An index of two documents with the vectors \<open>(0, 1)\<close> and \<open>(1, 0)\<close>.\<close>

definition ranked_index :: es_index where
  "ranked_index =
     [(''1'', \<lparr>doc_vector = [0, 1], doc_text = ''A'' @ [CHR 0x0A] @ ''Paris is the capital of France.'',
              doc_metadata = \<lparr>md_title = ''A'', md_id = 1\<rparr>\<rparr>),
      (''2'', \<lparr>doc_vector = [1, 0], doc_text = ''B'' @ [CHR 0x0A] @ ''Tokyo is the capital of Japan.'',
              doc_metadata = \<lparr>md_title = ''B'', md_id = 2\<rparr>\<rparr>)]"

text \<open>A prompt template: the context, a newline, the question.\<close>

definition plain_template :: "string \<Rightarrow> string \<Rightarrow> string" where
  "plain_template context question = context @ [CHR 0x0A] @ question"

definition test_chain :: RetrievalQA where
  "test_chain = qa_chain plain_template [CHR 0x0A, CHR 0x0A] 4 (indexName 7)"

section \<open>Properties of \<open>str\<close>\<close>

lemma digit_cases: "d < 10 \<Longrightarrow> d \<in> {0, 1, 2, 3, 4, 5, 6, 7, 8, 9::nat}"
  by auto

lemma digit_val_digit_char: "d < 10 \<Longrightarrow> digit_val (digit_char d) = d"
  by (drule digit_cases) (auto simp: digit_val_def digit_char_def)

lemma digit_char_not_minus: "d < 10 \<Longrightarrow> digit_char d \<noteq> CHR ''-''"
  by (drule digit_cases) (auto simp: digit_char_def)

lemma nat_of_str_snoc: "nat_of_str (s @ [c]) = 10 * nat_of_str s + digit_val c"
  by (simp add: nat_of_str_def)

lemma nat_of_str_str_nat: "nat_of_str (str_nat n) = n"
proof (induction n rule: str_nat.induct)
  case (1 n)
  show ?case
  proof (cases "n < 10")
    case True
    then show ?thesis
      by (simp add: str_nat.simps [of n] nat_of_str_def digit_val_digit_char)
  next
    case False
    with "1" show ?thesis
      by (simp add: str_nat.simps [of n] nat_of_str_snoc digit_val_digit_char)
  qed
qed

lemma inj_str_nat: "inj str_nat"
  by (rule inj_on_inverseI [where g = nat_of_str]) (rule nat_of_str_str_nat)

lemma minus_notin_str_nat: "CHR ''-'' \<notin> set (str_nat n)"
proof (induction n rule: str_nat.induct)
  case (1 n)
  have d: "digit_char (n mod 10) \<noteq> CHR ''-''"
    by (rule digit_char_not_minus) simp
  show ?case
  proof (cases "n < 10")
    case True
    then show ?thesis
      using digit_char_not_minus [of n] by (auto simp add: str_nat.simps [of n])
  next
    case False
    with "1" d show ?thesis
      by (auto simp add: str_nat.simps [of n])
  qed
qed

lemma hd_str_nat: "str_nat n \<noteq> CHR ''-'' # s"
  using minus_notin_str_nat [of n] by auto

lemma inj_str_int: "inj str_int"
proof (rule injI)
  fix i j :: int
  assume eq: "str_int i = str_int j"
  show "i = j"
  proof (cases "i < 0"; cases "j < 0")
    assume "i < 0" "j < 0"
    with eq have "str_nat (nat (- i)) = str_nat (nat (- j))"
      by (simp add: str_int_def)
    then have "nat (- i) = nat (- j)"
      using inj_str_nat by (simp add: inj_def)
    with \<open>i < 0\<close> \<open>j < 0\<close> show ?thesis by simp
  next
    assume "i < 0" "\<not> j < 0"
    with eq show ?thesis
      using hd_str_nat [of "nat j" "str_nat (nat (- i))"] by (simp add: str_int_def)
  next
    assume "\<not> i < 0" "j < 0"
    with eq show ?thesis
      using hd_str_nat [of "nat i" "str_nat (nat (- j))"] by (simp add: str_int_def)
  next
    assume "\<not> i < 0" "\<not> j < 0"
    with eq have "str_nat (nat i) = str_nat (nat j)"
      by (simp add: str_int_def)
    then have "nat i = nat j"
      using inj_str_nat by (simp add: inj_def)
    with \<open>\<not> i < 0\<close> \<open>\<not> j < 0\<close> show ?thesis by simp
  qed
qed

section \<open>Properties of the Indexing Pipeline\<close>

lemma embed_documents_Inr:
  "embed_documents P e ts = Inr vs \<Longrightarrow> list_all2 (\<lambda>t v. encode P (model_name e) t = Inr v) ts vs"
  by (induction ts arbitrary: vs) (auto split: sum.splits)

lemma embed_documents_total:
  "\<forall>t\<in>set ts. \<exists>v. encode P (model_name e) t = Inr v \<Longrightarrow> \<exists>vs. embed_documents P e ts = Inr vs"
  by (induction ts) (auto split: sum.splits)

lemma upsert_fresh: "k \<notin> fst ` set ix \<Longrightarrow> upsert k d ix = ix @ [(k, d)]"
  by (induction ix) auto

lemma bulk_distinct: "distinct (map fst (ix @ items)) \<Longrightarrow> bulk items ix = ix @ items"
proof (induction items arbitrary: ix)
  case Nil
  then show ?case by simp
next
  case (Cons a items)
  obtain k d where a: "a = (k, d)" by (cases a)
  from Cons.prems a have "k \<notin> fst ` set ix" by auto
  then have "upsert k d ix = ix @ [(k, d)]" by (rule upsert_fresh)
  moreover from Cons.prems a have "distinct (map fst ((ix @ [(k, d)]) @ items))" by auto
  ultimately show ?case
    using Cons.IH [of "ix @ [(k, d)]"] a by simp
qed

lemma map_fst_make_items:
  "length vs = length ids \<Longrightarrow> length texts = length ids \<Longrightarrow> length metadatas = length ids \<Longrightarrow>
   map fst (make_items ids vs texts metadatas) = ids"
  unfolding make_items_def
  by (induction ids arbitrary: vs texts metadatas) (auto simp: length_Suc_conv)

lemma make_items_documents:
  "length vs = length documents \<Longrightarrow>
   make_items (ids_arg documents) vs (texts_arg documents) (metadatas_arg documents) =
     map2 (\<lambda>p v. (str_int (psg_id p),
        \<lparr>doc_vector = v, doc_text = indextext p,
         doc_metadata = \<lparr>md_title = psg_title p, md_id = psg_id p\<rparr>\<rparr>)) documents vs"
  unfolding make_items_def ids_arg_def texts_arg_def metadatas_arg_def
  by (induction documents arbitrary: vs) (auto simp: length_Suc_conv)

lemma map_of_map2_documents:
  "list_all2 R ps vs \<Longrightarrow> distinct (map psg_id ps) \<Longrightarrow> p \<in> set ps \<Longrightarrow>
   \<exists>v. R p v \<and> map_of (map2 (\<lambda>p v. (str_int (psg_id p), F p v)) ps vs) (str_int (psg_id p)) = Some (F p v)"
proof (induction rule: list_all2_induct)
  case Nil
  then show ?case by simp
next
  case (Cons x xs y ys)
  show ?case
  proof (cases "p = x")
    case True
    with Cons show ?thesis by auto
  next
    case False
    with Cons.prems have "p \<in> set xs" by simp
    from Cons.prems have "psg_id x \<notin> psg_id ` set xs" by simp
    with \<open>p \<in> set xs\<close> have "psg_id p \<noteq> psg_id x" by (metis imageI)
    then have "str_int (psg_id p) \<noteq> str_int (psg_id x)"
      using inj_str_int by (auto dest: injD)
    with Cons \<open>p \<in> set xs\<close> show ?thesis by auto
  qed
qed

lemma index_documents_Inr:
  assumes "snd (index_documents P kb documents es) = Inr ids"
  shows "\<exists>vs. embed_documents P (embedding kb) (texts_arg documents) = Inr vs \<and>
           fst (index_documents P kb documents es) (index_name kb) =
             Some (bulk (make_items (ids_arg documents) vs (texts_arg documents) (metadatas_arg documents)) [])"
  using assms
  by (auto simp: index_documents_def add_texts_def indices_exists_def indices_delete_def Let_def
      split: sum.splits option.splits)

lemma map_fst_map2_documents:
  "length vs = length documents \<Longrightarrow>
   map fst (map2 (\<lambda>p v. (str_int (psg_id p), F p v)) documents vs) = map str_int (map psg_id documents)"
  by (induction documents arbitrary: vs) (auto simp: length_Suc_conv)

lemma distinct_str_ids:
  assumes "distinct (map psg_id documents)"
  shows "distinct (map str_int (map psg_id documents))"
proof -
  have "inj_on str_int (set (map psg_id documents))"
    using inj_str_int by (rule inj_on_subset) simp
  with assms show ?thesis
    by (subst distinct_map) simp
qed

text \<open>
  C6: a run of the Indexing Pipeline that completes has embedded, for every passage, the
  string made of the title, a newline and the text, and the index holds the result of
  upserting, passage by passage, the document with that string as its text and that
  embedding as its vector, under the key \<open>str(id)\<close>. When the ids are pairwise distinct,
  looking up \<open>str(id)\<close> of a passage finds that document.
\<close>

theorem index_documents_upserts_indextext:
  assumes "snd (index_documents P kb documents es) = Inr ids"
  shows "\<exists>vs ix.
      list_all2 (\<lambda>p v. encode P (model_name (embedding kb)) (psg_title p @ [CHR 0x0A] @ psg_text p) = Inr v)
        documents vs \<and>
      fst (index_documents P kb documents es) (index_name kb) = Some ix \<and>
      ix = bulk (map2 (\<lambda>p v. (str_int (psg_id p),
                \<lparr>doc_vector = v, doc_text = psg_title p @ [CHR 0x0A] @ psg_text p,
                 doc_metadata = \<lparr>md_title = psg_title p, md_id = psg_id p\<rparr>\<rparr>)) documents vs) [] \<and>
      (distinct (map psg_id documents) \<longrightarrow>
         (\<forall>p\<in>set documents. \<exists>v.
            encode P (model_name (embedding kb)) (psg_title p @ [CHR 0x0A] @ psg_text p) = Inr v \<and>
            map_of ix (str_int (psg_id p)) =
              Some \<lparr>doc_vector = v, doc_text = psg_title p @ [CHR 0x0A] @ psg_text p,
                    doc_metadata = \<lparr>md_title = psg_title p, md_id = psg_id p\<rparr>\<rparr>))"
proof -
  let ?F = "\<lambda>p v. \<lparr>doc_vector = v, doc_text = psg_title p @ [CHR 0x0A] @ psg_text p,
                 doc_metadata = \<lparr>md_title = psg_title p, md_id = psg_id p\<rparr>\<rparr>"
  let ?R = "\<lambda>p v. encode P (model_name (embedding kb)) (psg_title p @ [CHR 0x0A] @ psg_text p) = Inr v"
  from index_documents_Inr [OF assms] obtain vs where
    vs: "embed_documents P (embedding kb) (texts_arg documents) = Inr vs" and
    ix: "fst (index_documents P kb documents es) (index_name kb) =
           Some (bulk (make_items (ids_arg documents) vs (texts_arg documents) (metadatas_arg documents)) [])"
    by blast
  from embed_documents_Inr [OF vs]
  have all: "list_all2 ?R documents vs"
    by (simp add: texts_arg_def list_all2_map1 indextext_def)
  then have len: "length vs = length documents"
    by (auto dest: list_all2_lengthD)
  let ?items = "map2 (\<lambda>p v. (str_int (psg_id p), ?F p v)) documents vs"
  from make_items_documents [OF len]
  have items: "make_items (ids_arg documents) vs (texts_arg documents) (metadatas_arg documents) = ?items"
    by (simp add: indextext_def)
  have keyed: "\<forall>p\<in>set documents. \<exists>v. ?R p v \<and> map_of (bulk ?items []) (str_int (psg_id p)) = Some (?F p v)"
    if d: "distinct (map psg_id documents)"
  proof
    fix p
    assume p: "p \<in> set documents"
    from d have "distinct (map fst ([] @ ?items))"
      by (simp only: append_Nil map_fst_map2_documents [OF len] distinct_str_ids)
    then have "bulk ?items [] = ?items"
      using bulk_distinct [of "[]" ?items] by simp
    with map_of_map2_documents [OF all d p, of ?F]
    show "\<exists>v. ?R p v \<and> map_of (bulk ?items []) (str_int (psg_id p)) = Some (?F p v)"
      by simp
  qed
  from all ix items keyed show ?thesis
    by auto
qed

theorem index_documents_upserts_indextext_witness:
  "snd (index_documents (stub_providers [1] ''answer'') (knowledge_base (indexName 7)) two_passages Map.empty)
     = Inr [''1'', ''2''] \<and>
   fst (index_documents (stub_providers [1] ''answer'') (knowledge_base (indexName 7)) two_passages Map.empty)
     ''lab-langchain-test-7'' =
     Some [(''1'', \<lparr>doc_vector = [1], doc_text = ''A'' @ [CHR 0x0A] @ ''Paris is the capital of France.'',
                  doc_metadata = \<lparr>md_title = ''A'', md_id = 1\<rparr>\<rparr>),
           (''2'', \<lparr>doc_vector = [1], doc_text = ''B'' @ [CHR 0x0A] @ ''Tokyo is the capital of Japan.'',
                  doc_metadata = \<lparr>md_title = ''B'', md_id = 2\<rparr>\<rparr>)]"
proof -
  have h: "snd (index_documents (stub_providers [1] ''answer'') (knowledge_base (indexName 7)) two_passages Map.empty)
     = Inr [''1'', ''2'']"
    by (simp add: index_documents_def add_texts_def indices_exists_def texts_arg_def ids_arg_def
        two_passages_def stub_providers_def knowledge_base_def str_int_def str_nat.simps digit_char_def)
  from index_documents_upserts_indextext [OF h] show ?thesis
    using h
    by (auto simp: two_passages_def stub_providers_def knowledge_base_def indexName_def str_int_def
        str_nat.simps digit_char_def list_all2_Cons1)
qed

lemma index_documents_fresh:
  "fst (index_documents P kb documents es) (index_name kb) =
     (case embed_documents P (embedding kb) (texts_arg documents) of
        Inl msg \<Rightarrow> None
      | Inr vs \<Rightarrow> Some (bulk (make_items (ids_arg documents) vs (texts_arg documents) (metadatas_arg documents)) []))"
  by (simp add: index_documents_def add_texts_def indices_exists_def indices_delete_def Let_def
      split: sum.splits option.splits)

lemma doc_count_distinct:
  assumes "distinct (map psg_id documents)"
    and "\<forall>p\<in>set documents. \<exists>v. encode P (model_name (embedding kb)) (indextext p) = Inr v"
  shows "doc_count P kb documents es = Inr (length documents)"
proof -
  from assms(2) have "\<forall>t\<in>set (texts_arg documents). \<exists>v. encode P (model_name (embedding kb)) t = Inr v"
    by (simp add: texts_arg_def)
  then obtain vs where vs: "embed_documents P (embedding kb) (texts_arg documents) = Inr vs"
    using embed_documents_total by blast
  from embed_documents_Inr [OF vs] have len: "length vs = length documents"
    by (auto simp: texts_arg_def dest: list_all2_lengthD)
  let ?items = "make_items (ids_arg documents) vs (texts_arg documents) (metadatas_arg documents)"
  have keys: "map fst ?items = ids_arg documents"
    by (rule map_fst_make_items) (simp_all add: len ids_arg_def texts_arg_def metadatas_arg_def)
  from assms(1) have "distinct (ids_arg documents)"
    unfolding ids_arg_def by (rule distinct_str_ids)
  with keys have "bulk ?items [] = ?items"
    using bulk_distinct [of "[]" ?items] by simp
  moreover from keys have "length ?items = length documents"
    by (metis length_map ids_arg_def)
  ultimately show ?thesis
    using vs by (simp add: doc_count_def es_count_def index_documents_fresh)
qed

text \<open>
  C3, amended: for a corpus whose passage ids are pairwise distinct and a run in which
  every embedding succeeds, whatever the prior state, the document count after the run is
  the number of passages; a second run on the same corpus gives the same count; and the
  index is the one that the run builds from nothing, so an index that existed under the
  name was dropped and rebuilt.
\<close>

theorem reindex_doc_count:
  assumes "distinct (map psg_id documents)"
    and "\<forall>p\<in>set documents. \<exists>v. encode P (model_name (embedding kb)) (indextext p) = Inr v"
  shows "doc_count P kb documents es = Inr (length documents) \<and>
         doc_count P kb documents (fst (index_documents P kb documents es)) = Inr (length documents) \<and>
         fst (index_documents P kb documents es) (index_name kb) =
           fst (index_documents P kb documents Map.empty) (index_name kb)"
  using doc_count_distinct [OF assms] by (simp add: index_documents_fresh)

theorem reindex_doc_count_witness:
  "distinct (map psg_id two_passages) \<and>
   doc_count (stub_providers [1] ''answer'') (knowledge_base (indexName 7)) two_passages Map.empty = Inr 2 \<and>
   doc_count (stub_providers [1] ''answer'') (knowledge_base (indexName 7)) two_passages
     (fst (index_documents (stub_providers [1] ''answer'') (knowledge_base (indexName 7)) two_passages Map.empty))
     = Inr 2"
proof -
  have d: "distinct (map psg_id two_passages)"
    by (simp add: two_passages_def)
  have e: "\<forall>p\<in>set two_passages. \<exists>v.
      encode (stub_providers [1] ''answer'') (model_name (embedding (knowledge_base (indexName 7)))) (indextext p) = Inr v"
    by (simp add: stub_providers_def)
  from reindex_doc_count [OF d e, of Map.empty] d show ?thesis
    by (simp add: two_passages_def)
qed

text \<open>
  The count is not the number of passages when two passages share an id: the second
  upsert replaces the first document.
\<close>

theorem reindex_doc_count_counterexample:
  "doc_count (stub_providers [1] ''answer'') (knowledge_base (indexName 7)) same_id_passages Map.empty = Inr 1 \<and>
   length same_id_passages = 2"
  by (simp add: doc_count_def es_count_def index_documents_def add_texts_def indices_exists_def
      texts_arg_def ids_arg_def metadatas_arg_def make_items_def same_id_passages_def
      stub_providers_def knowledge_base_def)

lemma inj_indexName: "inj indexName"
  using inj_str_int by (auto simp: inj_def indexName_def)

lemma index_documents_other:
  "name \<noteq> index_name kb \<Longrightarrow> fst (index_documents P kb documents es) name = es name"
  by (simp add: index_documents_def add_texts_def indices_exists_def indices_delete_def Let_def
      split: sum.splits option.splits)

text \<open>
  C10: the index name depends on the random draw: two draws of the range give different
  names; the draws \<open>0\<close> to \<open>2000\<close> give 2001 different names, from
  \<open>lab-langchain-test-0\<close> to \<open>lab-langchain-test-2000\<close>; a run leaves every index
  under another name as it was, and when no index has the drawn name nothing is dropped:
  the run is the call of \<open>add_texts\<close> on the unchanged state.
\<close>

theorem indexName_random:
  "(\<exists>r1\<in>randint_range. \<exists>r2\<in>randint_range. indexName r1 \<noteq> indexName r2) \<and>
   card (indexName ` randint_range) = 2001 \<and>
   indexName 0 = ''lab-langchain-test-0'' \<and> indexName 2000 = ''lab-langchain-test-2000'' \<and>
   (\<forall>r\<in>randint_range. name \<noteq> indexName r \<longrightarrow>
      fst (index_documents P (knowledge_base (indexName r)) documents es) name = es name) \<and>
   (\<forall>r\<in>randint_range. es (indexName r) = None \<longrightarrow>
      index_documents P (knowledge_base (indexName r)) documents es =
        add_texts P (knowledge_base (indexName r)) (texts_arg documents) (metadatas_arg documents)
          (ids_arg documents) es)"
proof -
  have "(0::int) \<in> randint_range" "(1::int) \<in> randint_range"
    by (simp_all add: randint_range_def)
  moreover have "indexName 0 \<noteq> indexName 1"
    using inj_indexName by (auto dest: injD)
  ultimately have a: "\<exists>r1\<in>randint_range. \<exists>r2\<in>randint_range. indexName r1 \<noteq> indexName r2"
    by blast
  have "card (indexName ` randint_range) = card randint_range"
    by (rule card_image) (rule inj_on_subset [OF inj_indexName subset_UNIV])
  then have b: "card (indexName ` randint_range) = 2001"
    by (simp add: randint_range_def)
  have c: "indexName 0 = ''lab-langchain-test-0''" "indexName 2000 = ''lab-langchain-test-2000''"
    by (simp_all add: indexName_def str_int_def str_nat.simps digit_char_def)
  have d: "\<forall>r\<in>randint_range. name \<noteq> indexName r \<longrightarrow>
      fst (index_documents P (knowledge_base (indexName r)) documents es) name = es name"
    by (simp add: index_documents_other knowledge_base_def)
  have e: "\<forall>r\<in>randint_range. es (indexName r) = None \<longrightarrow>
      index_documents P (knowledge_base (indexName r)) documents es =
        add_texts P (knowledge_base (indexName r)) (texts_arg documents) (metadatas_arg documents)
          (ids_arg documents) es"
    by (simp add: index_documents_def indices_exists_def knowledge_base_def)
  from a b c d e show ?thesis by blast
qed

theorem indexName_random_witness:
  "(7::int) \<in> randint_range \<and> ''lab-langchain-test-8'' \<noteq> indexName 7 \<and>
   fst (index_documents (stub_providers [1] ''answer'') (knowledge_base (indexName 7)) two_passages
         (Map.empty(''lab-langchain-test-8'' \<mapsto> []))) ''lab-langchain-test-8'' = Some []"
proof -
  have r: "(7::int) \<in> randint_range"
    by (simp add: randint_range_def)
  have n: "''lab-langchain-test-8'' \<noteq> indexName 7"
    by (simp add: indexName_def str_int_def str_nat.simps digit_char_def)
  from indexName_random [of "''lab-langchain-test-8''" "stub_providers [1] ''answer''" two_passages
      "Map.empty(''lab-langchain-test-8'' \<mapsto> [])"]
  have "\<forall>r\<in>randint_range. ''lab-langchain-test-8'' \<noteq> indexName r \<longrightarrow>
      fst (index_documents (stub_providers [1] ''answer'') (knowledge_base (indexName r)) two_passages
            (Map.empty(''lab-langchain-test-8'' \<mapsto> []))) ''lab-langchain-test-8'' =
        (Map.empty(''lab-langchain-test-8'' \<mapsto> [])) ''lab-langchain-test-8''"
    by blast
  with r n show ?thesis by simp
qed

section \<open>Properties of the Query Pipeline\<close>

lemma sorted_wrt_sort_key_desc:
  "sorted_wrt (\<lambda>a b. f b \<le> f a) (sort_key (\<lambda>d. - f d) xs)" for f :: "'a \<Rightarrow> real"
proof -
  have "sorted (map (\<lambda>d. - f d) (sort_key (\<lambda>d. - f d) xs))"
    by (rule sorted_sort_key)
  then show ?thesis
    by (simp add: sorted_map)
qed

lemma similarity_search_ranked:
  "sorted_wrt (\<lambda>a b. dot_product qv (doc_vector b) \<le> dot_product qv (doc_vector a))
     (similarity_search ix qv k)"
  unfolding similarity_search_def
  by (rule sorted_wrt_take) (rule sorted_wrt_sort_key_desc)

lemma similarity_search_length: "length (similarity_search ix qv k) \<le> k"
  by (simp add: similarity_search_def)

lemma similarity_search_subset: "set (similarity_search ix qv k) \<subseteq> snd ` set ix"
proof -
  have "set (similarity_search ix qv k) \<subseteq> set (sort_key (\<lambda>d. - dot_product qv (doc_vector d)) (map snd ix))"
    unfolding similarity_search_def by (rule set_take_subset)
  then show ?thesis by simp
qed

lemma qa_Inr:
  assumes "snd (qa P chain es question) = Inr r"
  shows "\<exists>qv ix. encode P (model_name (embedding (vectorstore (retriever chain)))) question = Inr qv \<and>
           es (index_name (vectorstore (retriever chain))) = Some ix \<and>
           r = \<lparr>query = question,
                result = result r,
                source_documents = map to_document (similarity_search ix qv (search_k (retriever chain)))\<rparr>"
  using assms
  by (auto simp: qa_def es_search_def Let_def split: sum.splits option.splits)

text \<open>
  C4: the source documents of every QueryResponse are the documents of at most \<open>k\<close>
  hits, the hits are documents of the index, and they are in the order of descending
  dot product of their vector with the embedded query.
\<close>

theorem qa_source_documents_ranked:
  assumes "snd (qa P chain es question) = Inr r"
  shows "\<exists>qv ix hits.
           encode P (model_name (embedding (vectorstore (retriever chain)))) question = Inr qv \<and>
           es (index_name (vectorstore (retriever chain))) = Some ix \<and>
           source_documents r = map to_document hits \<and>
           length hits \<le> search_k (retriever chain) \<and>
           set hits \<subseteq> snd ` set ix \<and>
           sorted_wrt (\<lambda>a b. dot_product qv (doc_vector b) \<le> dot_product qv (doc_vector a)) hits"
proof -
  from qa_Inr [OF assms] obtain qv ix where
    qv: "encode P (model_name (embedding (vectorstore (retriever chain)))) question = Inr qv" and
    ix: "es (index_name (vectorstore (retriever chain))) = Some ix" and
    r: "r = \<lparr>query = question, result = result r,
             source_documents = map to_document (similarity_search ix qv (search_k (retriever chain)))\<rparr>"
    by blast
  let ?hits = "similarity_search ix qv (search_k (retriever chain))"
  from r have "source_documents r = map to_document ?hits"
    by (metis QueryResponse.select_convs(3))
  with qv ix show ?thesis
    using similarity_search_length [of ix qv "search_k (retriever chain)"]
      similarity_search_subset [of ix qv "search_k (retriever chain)"]
      similarity_search_ranked [of qv ix "search_k (retriever chain)"]
    by blast
qed

theorem qa_source_documents_ranked_witness:
  "snd (qa (stub_providers [1, 0] ''answer'') test_chain (Map.empty(indexName 7 \<mapsto> ranked_index))
         ''capital of Japan?'') =
     Inr \<lparr>query = ''capital of Japan?'', result = ''answer'',
          source_documents =
            [\<lparr>page_content = ''B'' @ [CHR 0x0A] @ ''Tokyo is the capital of Japan.'',
              metadata = \<lparr>md_title = ''B'', md_id = 2\<rparr>, doc_type = ''Document''\<rparr>,
             \<lparr>page_content = ''A'' @ [CHR 0x0A] @ ''Paris is the capital of France.'',
              metadata = \<lparr>md_title = ''A'', md_id = 1\<rparr>, doc_type = ''Document''\<rparr>]\<rparr> \<and>
   (\<exists>qv ix hits.
      encode (stub_providers [1, 0] ''answer'') (model_name (embedding (vectorstore (retriever test_chain))))
        ''capital of Japan?'' = Inr qv \<and>
      (Map.empty(indexName 7 \<mapsto> ranked_index)) (index_name (vectorstore (retriever test_chain))) = Some ix \<and>
      [\<lparr>page_content = ''B'' @ [CHR 0x0A] @ ''Tokyo is the capital of Japan.'',
        metadata = \<lparr>md_title = ''B'', md_id = 2\<rparr>, doc_type = ''Document''\<rparr>,
       \<lparr>page_content = ''A'' @ [CHR 0x0A] @ ''Paris is the capital of France.'',
        metadata = \<lparr>md_title = ''A'', md_id = 1\<rparr>, doc_type = ''Document''\<rparr>] = map to_document hits \<and>
      length hits \<le> search_k (retriever test_chain) \<and>
      set hits \<subseteq> snd ` set ix \<and>
      sorted_wrt (\<lambda>a b. dot_product qv (doc_vector b) \<le> dot_product qv (doc_vector a)) hits)"
proof -
  have h: "snd (qa (stub_providers [1, 0] ''answer'') test_chain (Map.empty(indexName 7 \<mapsto> ranked_index))
         ''capital of Japan?'') =
     Inr \<lparr>query = ''capital of Japan?'', result = ''answer'',
          source_documents =
            [\<lparr>page_content = ''B'' @ [CHR 0x0A] @ ''Tokyo is the capital of Japan.'',
              metadata = \<lparr>md_title = ''B'', md_id = 2\<rparr>, doc_type = ''Document''\<rparr>,
             \<lparr>page_content = ''A'' @ [CHR 0x0A] @ ''Paris is the capital of France.'',
              metadata = \<lparr>md_title = ''A'', md_id = 1\<rparr>, doc_type = ''Document''\<rparr>]\<rparr>"
    by (simp add: qa_def es_search_def similarity_search_def dot_product_def to_document_def
        test_chain_def qa_chain_def from_chain_type_def as_retriever_def knowledge_base_def
        stub_providers_def ranked_index_def plain_template_def Let_def)
  from qa_source_documents_ranked [OF h] h show ?thesis
    by simp
qed

text \<open>
  C7: on an index that holds no document, a query whose embedding succeeds is answered:
  the language model is called with the prompt made from the empty context, and when
  it answers, the pipeline returns the QueryResponse with that answer and no source
  document.
\<close>

theorem qa_empty_index:
  assumes "es (index_name (vectorstore (retriever chain))) = Some []"
    and "encode P (model_name (embedding (vectorstore (retriever chain)))) question = Inr qv"
    and "generate P (llm_model_id (llm chain)) (llm_params (llm chain))
           (prompt_template chain [] question) = Inr answer"
  shows "qa P chain es question =
           ([EmbedCall (model_name (embedding (vectorstore (retriever chain)))) question,
             SearchCall (index_name (vectorstore (retriever chain))) qv (search_k (retriever chain)),
             GenerateCall (llm_model_id (llm chain)) (llm_params (llm chain))
               (prompt_template chain [] question)],
            Inr \<lparr>query = question, result = answer, source_documents = []\<rparr>)"
  using assms
  by (simp add: qa_def es_search_def similarity_search_def Let_def)

theorem qa_empty_index_witness:
  "qa (stub_providers [1, 0] ''answer'') test_chain (Map.empty(indexName 7 \<mapsto> [])) ''capital of Japan?'' =
     ([EmbedCall ''all-MiniLM-L6-v2'' ''capital of Japan?'',
       SearchCall (indexName 7) [1, 0] 4,
       GenerateCall GRANITE_13B_INSTRUCT_V2 parameters ([CHR 0x0A] @ ''capital of Japan?'')],
      Inr \<lparr>query = ''capital of Japan?'', result = ''answer'', source_documents = []\<rparr>)"
proof -
  have a: "(Map.empty(indexName 7 \<mapsto> [])) (index_name (vectorstore (retriever test_chain))) = Some []"
    by (simp add: test_chain_def qa_chain_def from_chain_type_def as_retriever_def knowledge_base_def)
  have b: "encode (stub_providers [1, 0] ''answer'') (model_name (embedding (vectorstore (retriever test_chain))))
             ''capital of Japan?'' = Inr [1, 0]"
    by (simp add: stub_providers_def)
  have c: "generate (stub_providers [1, 0] ''answer'') (llm_model_id (llm test_chain)) (llm_params (llm test_chain))
             (prompt_template test_chain [] ''capital of Japan?'') = Inr ''answer''"
    by (simp add: stub_providers_def)
  from qa_empty_index [where es = "Map.empty(indexName 7 \<mapsto> [])" and chain = test_chain, OF a b c]
  show ?thesis
    by (simp add: test_chain_def qa_chain_def from_chain_type_def as_retriever_def knowledge_base_def
        emb_func_def watsonx_granite_def model_id_def plain_template_def)
qed

lemma qa_calls:
  "c \<in> set (fst (qa P chain es question)) \<Longrightarrow>
     c = EmbedCall (model_name (embedding (vectorstore (retriever chain)))) question \<or>
     (\<exists>qv. encode P (model_name (embedding (vectorstore (retriever chain)))) question = Inr qv \<and>
        c = SearchCall (index_name (vectorstore (retriever chain))) qv (search_k (retriever chain))) \<or>
     (\<exists>prompt. c = GenerateCall (llm_model_id (llm chain)) (llm_params (llm chain)) prompt)"
  by (auto simp: qa_def Let_def split: sum.splits)

lemma qa_generates:
  assumes "encode P (model_name (embedding (vectorstore (retriever chain)))) question = Inr qv"
    and "es (index_name (vectorstore (retriever chain))) = Some ix"
  shows "\<exists>prompt. GenerateCall (llm_model_id (llm chain)) (llm_params (llm chain)) prompt
           \<in> set (fst (qa P chain es question))"
  using assms by (auto simp: qa_def es_search_def Let_def split: sum.splits)

lemma qa_chain_simps:
  "llm (qa_chain template sep k name) = watsonx_granite"
  "vectorstore (retriever (qa_chain template sep k name)) = knowledge_base name"
  "search_k (retriever (qa_chain template sep k name)) = k"
  "prompt_template (qa_chain template sep k name) = template"
  "document_separator (qa_chain template sep k name) = sep"
  by (simp_all add: qa_chain_def from_chain_type_def as_retriever_def)

text \<open>
  C8: every call of the language model that the notebook's chain makes carries the
  notebook's parameters: greedy decoding, at least 1 and at most 50 new tokens; and the
  call is made whenever the embedding of the query succeeds and the index exists.
\<close>

theorem qa_generation_parameters:
  "(\<forall>c\<in>set (fst (qa P (qa_chain template sep k name) es question)).
      \<forall>m g p. c = GenerateCall m g p \<longrightarrow>
        g = parameters \<and> DECODING_METHOD g = ''greedy'' \<and> MIN_NEW_TOKENS g = 1 \<and> MAX_NEW_TOKENS g = 50) \<and>
   (\<forall>qv ix. encode P ''all-MiniLM-L6-v2'' question = Inr qv \<and> es name = Some ix \<longrightarrow>
      (\<exists>p. GenerateCall GRANITE_13B_INSTRUCT_V2 parameters p
             \<in> set (fst (qa P (qa_chain template sep k name) es question))))"
proof -
  have p: "llm_params watsonx_granite = parameters" "llm_model_id watsonx_granite = GRANITE_13B_INSTRUCT_V2"
    by (simp_all add: watsonx_granite_def model_id_def)
  have a: "\<forall>c\<in>set (fst (qa P (qa_chain template sep k name) es question)).
      \<forall>m g p. c = GenerateCall m g p \<longrightarrow>
        g = parameters \<and> DECODING_METHOD g = ''greedy'' \<and> MIN_NEW_TOKENS g = 1 \<and> MAX_NEW_TOKENS g = 50"
  proof (intro ballI allI impI)
    fix c m g pr
    assume "c \<in> set (fst (qa P (qa_chain template sep k name) es question))" and "c = GenerateCall m g pr"
    with qa_calls [of c P "qa_chain template sep k name" es question]
    have "g = parameters"
      by (auto simp: qa_chain_simps p)
    then show "g = parameters \<and> DECODING_METHOD g = ''greedy'' \<and> MIN_NEW_TOKENS g = 1 \<and> MAX_NEW_TOKENS g = 50"
      by (simp add: parameters_def)
  qed
  have b: "\<forall>qv ix. encode P ''all-MiniLM-L6-v2'' question = Inr qv \<and> es name = Some ix \<longrightarrow>
      (\<exists>p. GenerateCall GRANITE_13B_INSTRUCT_V2 parameters p
             \<in> set (fst (qa P (qa_chain template sep k name) es question)))"
    using qa_generates [of P "qa_chain template sep k name" question _ es]
    by (simp add: qa_chain_simps p knowledge_base_def emb_func_def)
  from a b show ?thesis by blast
qed

theorem qa_generation_parameters_witness:
  "GenerateCall GRANITE_13B_INSTRUCT_V2 parameters ([CHR 0x0A] @ ''capital of Japan?'')
     \<in> set (fst (qa (stub_providers [1, 0] ''answer'') (qa_chain plain_template [CHR 0x0A, CHR 0x0A] 4 (indexName 7))
                  (Map.empty(indexName 7 \<mapsto> [])) ''capital of Japan?'')) \<and>
   DECODING_METHOD parameters = ''greedy'' \<and> MIN_NEW_TOKENS parameters = 1 \<and> MAX_NEW_TOKENS parameters = 50"
proof -
  have m: "GenerateCall GRANITE_13B_INSTRUCT_V2 parameters ([CHR 0x0A] @ ''capital of Japan?'')
     \<in> set (fst (qa (stub_providers [1, 0] ''answer'') (qa_chain plain_template [CHR 0x0A, CHR 0x0A] 4 (indexName 7))
                  (Map.empty(indexName 7 \<mapsto> [])) ''capital of Japan?''))"
    by (simp add: qa_def es_search_def similarity_search_def Let_def qa_chain_simps stub_providers_def
        knowledge_base_def watsonx_granite_def model_id_def plain_template_def)
  from qa_generation_parameters [of "stub_providers [1, 0] ''answer''" plain_template "[CHR 0x0A, CHR 0x0A]" 4
      "indexName 7" "Map.empty(indexName 7 \<mapsto> [])" "''capital of Japan?''"] m
  show ?thesis by blast
qed

lemma upsert_pred:
  "Q d \<Longrightarrow> \<forall>x\<in>snd ` set ix. Q x \<Longrightarrow> \<forall>x\<in>snd ` set (upsert k d ix). Q x"
  by (induction ix) (fastforce split: if_splits)+

lemma bulk_pred:
  "\<forall>x\<in>snd ` set items. Q x \<Longrightarrow> \<forall>x\<in>snd ` set ix. Q x \<Longrightarrow> \<forall>x\<in>snd ` set (bulk items ix). Q x"
proof (induction items arbitrary: ix)
  case Nil
  then show ?case by simp
next
  case (Cons a items)
  obtain k d where a: "a = (k, d)" by (cases a)
  with Cons.prems have "Q d" by simp
  then have "\<forall>x\<in>snd ` set (upsert k d ix). Q x"
    using Cons.prems(2) by (rule upsert_pred)
  moreover from Cons.prems(1) have "\<forall>x\<in>snd ` set items. Q x" by simp
  ultimately have "\<forall>x\<in>snd ` set (bulk items (upsert k d ix)). Q x"
    by (rule Cons.IH [rotated])
  with a show ?case by simp
qed

lemma items_embedded:
  "list_all2 (\<lambda>p v. encode P m (indextext p) = Inr v) documents vs \<Longrightarrow>
   \<forall>x\<in>snd ` set (map2 (\<lambda>p v. (str_int (psg_id p),
        \<lparr>doc_vector = v, doc_text = indextext p,
         doc_metadata = \<lparr>md_title = psg_title p, md_id = psg_id p\<rparr>\<rparr>)) documents vs).
     encode P m (doc_text x) = Inr (doc_vector x)"
  by (induction rule: list_all2_induct) auto

lemma index_documents_embedded:
  assumes "snd (index_documents P kb documents es) = Inr ids"
  shows "\<exists>ix. fst (index_documents P kb documents es) (index_name kb) = Some ix \<and>
           (\<forall>d\<in>snd ` set ix. encode P (model_name (embedding kb)) (doc_text d) = Inr (doc_vector d))"
proof -
  from index_documents_Inr [OF assms] obtain vs where
    vs: "embed_documents P (embedding kb) (texts_arg documents) = Inr vs" and
    ix: "fst (index_documents P kb documents es) (index_name kb) =
           Some (bulk (make_items (ids_arg documents) vs (texts_arg documents) (metadatas_arg documents)) [])"
    by blast
  from embed_documents_Inr [OF vs]
  have all: "list_all2 (\<lambda>p v. encode P (model_name (embedding kb)) (indextext p) = Inr v) documents vs"
    by (simp add: texts_arg_def list_all2_map1)
  then have len: "length vs = length documents"
    by (auto dest: list_all2_lengthD)
  let ?items = "make_items (ids_arg documents) vs (texts_arg documents) (metadatas_arg documents)"
  from items_embedded [OF all]
  have "\<forall>x\<in>snd ` set ?items. encode P (model_name (embedding kb)) (doc_text x) = Inr (doc_vector x)"
    by (simp only: make_items_documents [OF len])
  then have "\<forall>x\<in>snd ` set (bulk ?items []). encode P (model_name (embedding kb)) (doc_text x) = Inr (doc_vector x)"
    by (rule bulk_pred) simp
  with ix show ?thesis by blast
qed

text \<open>
  C9: the vector of every document that the Indexing Pipeline stores is the embedding
  of the document's text by the model of \<open>emb_func\<close>, and the Query Pipeline embeds the
  query, and searches with the embedding of the query, by the same model,
  \<open>all-MiniLM-L6-v2\<close>.
\<close>

theorem same_embedding_function:
  "(\<forall>ids. snd (index_documents P (knowledge_base name) documents es) = Inr ids \<longrightarrow>
      (\<exists>ix. fst (index_documents P (knowledge_base name) documents es) name = Some ix \<and>
         (\<forall>d\<in>snd ` set ix. encode P (model_name emb_func) (doc_text d) = Inr (doc_vector d)))) \<and>
   (\<forall>c\<in>set (fst (qa P (qa_chain template sep k name) es' question)).
      (\<forall>m t. c = EmbedCall m t \<longrightarrow> m = model_name emb_func \<and> t = question) \<and>
      (\<forall>n qv j. c = SearchCall n qv j \<longrightarrow> n = name \<and> encode P (model_name emb_func) question = Inr qv)) \<and>
   model_name emb_func = ''all-MiniLM-L6-v2''"
proof -
  have kb: "index_name (knowledge_base name) = name" "embedding (knowledge_base name) = emb_func"
    by (simp_all add: knowledge_base_def)
  have a: "\<forall>ids. snd (index_documents P (knowledge_base name) documents es) = Inr ids \<longrightarrow>
      (\<exists>ix. fst (index_documents P (knowledge_base name) documents es) name = Some ix \<and>
         (\<forall>d\<in>snd ` set ix. encode P (model_name emb_func) (doc_text d) = Inr (doc_vector d)))"
    using index_documents_embedded [of P "knowledge_base name" documents es] by (simp add: kb)
  have b: "\<forall>c\<in>set (fst (qa P (qa_chain template sep k name) es' question)).
      (\<forall>m t. c = EmbedCall m t \<longrightarrow> m = model_name emb_func \<and> t = question) \<and>
      (\<forall>n qv j. c = SearchCall n qv j \<longrightarrow> n = name \<and> encode P (model_name emb_func) question = Inr qv)"
  proof
    fix c
    assume "c \<in> set (fst (qa P (qa_chain template sep k name) es' question))"
    from qa_calls [OF this]
    show "(\<forall>m t. c = EmbedCall m t \<longrightarrow> m = model_name emb_func \<and> t = question) \<and>
      (\<forall>n qv j. c = SearchCall n qv j \<longrightarrow> n = name \<and> encode P (model_name emb_func) question = Inr qv)"
      by (auto simp: qa_chain_simps kb)
  qed
  have c: "model_name emb_func = ''all-MiniLM-L6-v2''"
    by (simp add: emb_func_def)
  from a b c show ?thesis by blast
qed

theorem same_embedding_function_witness:
  "snd (index_documents (stub_providers [1, 0] ''answer'') (knowledge_base (indexName 7)) two_passages Map.empty)
     = Inr [''1'', ''2''] \<and>
   (\<exists>ix. fst (index_documents (stub_providers [1, 0] ''answer'') (knowledge_base (indexName 7)) two_passages Map.empty)
           (indexName 7) = Some ix \<and>
      (\<forall>d\<in>snd ` set ix.
         encode (stub_providers [1, 0] ''answer'') (model_name emb_func) (doc_text d) = Inr (doc_vector d))) \<and>
   EmbedCall ''all-MiniLM-L6-v2'' ''capital of Japan?''
     \<in> set (fst (qa (stub_providers [1, 0] ''answer'') (qa_chain plain_template [CHR 0x0A, CHR 0x0A] 4 (indexName 7))
                  Map.empty ''capital of Japan?''))"
proof -
  have h: "snd (index_documents (stub_providers [1, 0] ''answer'') (knowledge_base (indexName 7)) two_passages Map.empty)
     = Inr [''1'', ''2'']"
    by (simp add: index_documents_def add_texts_def indices_exists_def texts_arg_def ids_arg_def
        two_passages_def stub_providers_def knowledge_base_def str_int_def str_nat.simps digit_char_def)
  have m: "EmbedCall ''all-MiniLM-L6-v2'' ''capital of Japan?''
     \<in> set (fst (qa (stub_providers [1, 0] ''answer'') (qa_chain plain_template [CHR 0x0A, CHR 0x0A] 4 (indexName 7))
                  Map.empty ''capital of Japan?''))"
    by (simp add: qa_def es_search_def Let_def qa_chain_simps stub_providers_def
        knowledge_base_def emb_func_def)
  from same_embedding_function [of "stub_providers [1, 0] ''answer''" "indexName 7" two_passages Map.empty
      plain_template "[CHR 0x0A, CHR 0x0A]" 4 Map.empty "''capital of Japan?''"] h m
  show ?thesis by blast
qed

section \<open>Properties of the Query Endpoint\<close>

lemma request_query_valid: "request_query j = Some q \<Longrightarrow> valid_QueryRequest j"
  by (auto simp: request_query_def valid_QueryRequest_def required_property_def is_string_def
      split: json.splits option.splits)

lemma runQuery_qa:
  assumes "authorized api_keys req" and "body req = Some j" and "request_query j = Some q" and "q \<noteq> []"
  shows "runQuery api_keys P chain es req =
           (case qa P chain es q of
              (calls, Inl msg) \<Rightarrow> (calls, ServerError msg)
            | (calls, Inr r) \<Rightarrow> (calls, Success r))"
  using assms request_query_valid [OF assms(3)] by (simp add: runQuery_def)

lemma runQuery_Success:
  assumes "authorized api_keys req" and "body req = Some j" and "request_query j = Some q" and "q \<noteq> []"
  shows "snd (runQuery api_keys P chain es req) = Success r \<longleftrightarrow> snd (qa P chain es q) = Inr r"
  unfolding runQuery_qa [OF assms] by (auto split: prod.splits sum.splits)

lemma runQuery_ServerError:
  assumes "authorized api_keys req" and "body req = Some j" and "request_query j = Some q" and "q \<noteq> []"
  shows "snd (runQuery api_keys P chain es req) = ServerError msg \<longleftrightarrow> snd (qa P chain es q) = Inl msg"
  unfolding runQuery_qa [OF assms] by (auto split: prod.splits sum.splits)

lemma qa_query: "snd (qa P chain es question) = Inr r \<Longrightarrow> query r = question"
  by (auto simp: qa_def Let_def split: sum.splits)

lemma qa_total:
  assumes "\<forall>m t. \<exists>v. encode P m t = Inr v" and "\<forall>m g p. \<exists>a. generate P m g p = Inr a"
    and "es (index_name (vectorstore (retriever chain))) \<noteq> None"
  shows "\<exists>r. snd (qa P chain es question) = Inr r"
proof -
  obtain qv where qv: "encode P (model_name (embedding (vectorstore (retriever chain)))) question = Inr qv"
    using assms(1) by blast
  obtain ix where ix: "es (index_name (vectorstore (retriever chain))) = Some ix"
    using assms(3) by blast
  let ?prompt = "prompt_template chain
      (join (document_separator chain)
        (map page_content (map to_document (similarity_search ix qv (search_k (retriever chain))))))
      question"
  obtain a where a: "generate P (llm_model_id (llm chain)) (llm_params (llm chain)) ?prompt = Inr a"
    using assms(2) by blast
  from qv ix a show ?thesis
    by (simp add: qa_def es_search_def Let_def)
qed

lemma valid_json_of_Document: "valid_Document (json_of_Document d)"
  by (simp add: valid_Document_def json_of_Document_def json_of_metadata_def valid_metadata_def
      optional_property_def is_string_def is_integer_def)

lemma valid_json_of_QueryResponse: "valid_QueryResponse (json_of_QueryResponse r)"
  by (simp add: valid_QueryResponse_def json_of_QueryResponse_def optional_property_def is_string_def
      valid_documents_def list_all_iff valid_json_of_Document)

lemma valid_json_of_ErrorResponse: "valid_ErrorResponse (json_of_ErrorResponse msg)"
  by (simp add: valid_ErrorResponse_def json_of_ErrorResponse_def optional_property_def is_string_def)

text \<open>
  C1: for an authorized request whose body is a valid QueryRequest with a non-empty
  query, every QueryResponse that the endpoint returns has the query of the request in
  its field \<open>query\<close>, and the endpoint returns one when the providers answer and the
  index exists.
\<close>

theorem runQuery_returns_query:
  assumes "authorized api_keys req" and "body req = Some j" and "request_query j = Some q" and "q \<noteq> []"
  shows "valid_QueryRequest j \<and>
         (\<forall>r. snd (runQuery api_keys P chain es req) = Success r \<longrightarrow> query r = q) \<and>
         ((\<forall>m t. \<exists>v. encode P m t = Inr v) \<and> (\<forall>m g p. \<exists>a. generate P m g p = Inr a) \<and>
          es (index_name (vectorstore (retriever chain))) \<noteq> None \<longrightarrow>
            (\<exists>r. snd (runQuery api_keys P chain es req) = Success r \<and> query r = q))"
proof -
  note S = runQuery_Success [OF assms]
  have a: "\<forall>r. snd (runQuery api_keys P chain es req) = Success r \<longrightarrow> query r = q"
    by (simp add: S qa_query)
  have b: "(\<forall>m t. \<exists>v. encode P m t = Inr v) \<and> (\<forall>m g p. \<exists>a. generate P m g p = Inr a) \<and>
          es (index_name (vectorstore (retriever chain))) \<noteq> None \<longrightarrow>
            (\<exists>r. snd (runQuery api_keys P chain es req) = Success r \<and> query r = q)"
  proof
    assume "(\<forall>m t. \<exists>v. encode P m t = Inr v) \<and> (\<forall>m g p. \<exists>a. generate P m g p = Inr a) \<and>
          es (index_name (vectorstore (retriever chain))) \<noteq> None"
    then obtain r where "snd (qa P chain es q) = Inr r"
      using qa_total [of P es chain q] by blast
    then show "\<exists>r. snd (runQuery api_keys P chain es req) = Success r \<and> query r = q"
      using S qa_query by blast
  qed
  from request_query_valid [OF assms(3)] a b show ?thesis by blast
qed

theorem runQuery_returns_query_witness:
  "snd (runQuery {''secret''} (stub_providers [1, 0] ''answer'') test_chain (Map.empty(indexName 7 \<mapsto> ranked_index))
         \<lparr>headers = [(''apikey'', ''secret'')], body = Some (JObject [(''query'', JString ''capital of Japan?'')])\<rparr>)
     = Success
         \<lparr>query = ''capital of Japan?'', result = ''answer'',
          source_documents =
            [\<lparr>page_content = ''B'' @ [CHR 0x0A] @ ''Tokyo is the capital of Japan.'',
              metadata = \<lparr>md_title = ''B'', md_id = 2\<rparr>, doc_type = ''Document''\<rparr>,
             \<lparr>page_content = ''A'' @ [CHR 0x0A] @ ''Paris is the capital of France.'',
              metadata = \<lparr>md_title = ''A'', md_id = 1\<rparr>, doc_type = ''Document''\<rparr>]\<rparr> \<and>
   (\<exists>r. snd (runQuery {''secret''} (stub_providers [1, 0] ''answer'') test_chain
                (Map.empty(indexName 7 \<mapsto> ranked_index))
                \<lparr>headers = [(''apikey'', ''secret'')],
                 body = Some (JObject [(''query'', JString ''capital of Japan?'')])\<rparr>) = Success r \<and>
        query r = ''capital of Japan?'')"
proof -
  let ?req = "\<lparr>headers = [(''apikey'', ''secret'')], body = Some (JObject [(''query'', JString ''capital of Japan?'')])\<rparr>"
  have a: "authorized {''secret''} ?req"
    by (simp add: authorized_def)
  have b: "body ?req = Some (JObject [(''query'', JString ''capital of Japan?'')])"
    by simp
  have c: "request_query (JObject [(''query'', JString ''capital of Japan?'')]) = Some ''capital of Japan?''"
    by (simp add: request_query_def)
  have d: "''capital of Japan?'' \<noteq> []"
    by simp
  have e: "(\<forall>m t. \<exists>v. encode (stub_providers [1, 0] ''answer'') m t = Inr v) \<and>
           (\<forall>m g p. \<exists>a. generate (stub_providers [1, 0] ''answer'') m g p = Inr a) \<and>
           (Map.empty(indexName 7 \<mapsto> ranked_index)) (index_name (vectorstore (retriever test_chain))) \<noteq> None"
    by (simp add: stub_providers_def test_chain_def qa_chain_simps knowledge_base_def)
  have f: "snd (runQuery {''secret''} (stub_providers [1, 0] ''answer'') test_chain
              (Map.empty(indexName 7 \<mapsto> ranked_index)) ?req)
     = Success
         \<lparr>query = ''capital of Japan?'', result = ''answer'',
          source_documents =
            [\<lparr>page_content = ''B'' @ [CHR 0x0A] @ ''Tokyo is the capital of Japan.'',
              metadata = \<lparr>md_title = ''B'', md_id = 2\<rparr>, doc_type = ''Document''\<rparr>,
             \<lparr>page_content = ''A'' @ [CHR 0x0A] @ ''Paris is the capital of France.'',
              metadata = \<lparr>md_title = ''A'', md_id = 1\<rparr>, doc_type = ''Document''\<rparr>]\<rparr>"
    by (simp add: runQuery_def authorized_def valid_QueryRequest_def required_property_def is_string_def
        request_query_def qa_def es_search_def similarity_search_def dot_product_def to_document_def
        test_chain_def qa_chain_simps knowledge_base_def
        stub_providers_def ranked_index_def plain_template_def Let_def)
  from runQuery_returns_query [OF a b c d, where P = "stub_providers [1, 0] ''answer''"
      and es = "Map.empty(indexName 7 \<mapsto> ranked_index)" and chain = test_chain] e f
  show ?thesis by blast
qed

lemma runQuery_unauthorized:
  "\<not> authorized api_keys req \<Longrightarrow> runQuery api_keys P chain es req = ([], Unauthorized)"
  by (simp add: runQuery_def)

text \<open>
  C5: a request without the header \<open>apikey\<close>, or with a key that is not accepted, gets 401
  and no body, and no provider is called; with an accepted key and a valid body whose
  query is not empty, a run
  of the pipeline that succeeds gets 200 with the QueryResponse, which satisfies the
  schema \<open>QueryResponse\<close>, and a run that fails gets 500 with the body
  \<open>{detail: message}\<close>, which satisfies the schema \<open>ErrorResponse\<close>.
\<close>

theorem runQuery_responses:
  "(map_of (headers req) ''apikey'' = None \<or>
    (\<exists>key. map_of (headers req) ''apikey'' = Some key \<and> key \<notin> api_keys) \<longrightarrow>
      runQuery api_keys P chain es req = ([], Unauthorized) \<and>
      status_code Unauthorized = 401 \<and> response_body Unauthorized = None) \<and>
   ((\<exists>key. map_of (headers req) ''apikey'' = Some key \<and> key \<in> api_keys) \<and>
    body req = Some j \<and> request_query j = Some q \<and> q \<noteq> [] \<longrightarrow>
      (\<forall>r. snd (qa P chain es q) = Inr r \<longrightarrow>
         snd (runQuery api_keys P chain es req) = Success r \<and>
         status_code (Success r) = 200 \<and>
         response_body (Success r) = Some (json_of_QueryResponse r) \<and>
         valid_QueryResponse (json_of_QueryResponse r)) \<and>
      (\<forall>msg. snd (qa P chain es q) = Inl msg \<longrightarrow>
         snd (runQuery api_keys P chain es req) = ServerError msg \<and>
         status_code (ServerError msg) = 500 \<and>
         response_body (ServerError msg) = Some (JObject [(''detail'', JString msg)]) \<and>
         valid_ErrorResponse (JObject [(''detail'', JString msg)])))"
proof -
  have a: "map_of (headers req) ''apikey'' = None \<or>
    (\<exists>key. map_of (headers req) ''apikey'' = Some key \<and> key \<notin> api_keys) \<longrightarrow>
      runQuery api_keys P chain es req = ([], Unauthorized) \<and>
      status_code Unauthorized = 401 \<and> response_body Unauthorized = None"
  proof
    assume "map_of (headers req) ''apikey'' = None \<or>
      (\<exists>key. map_of (headers req) ''apikey'' = Some key \<and> key \<notin> api_keys)"
    then have "\<not> authorized api_keys req"
      by (auto simp: authorized_def)
    then show "runQuery api_keys P chain es req = ([], Unauthorized) \<and>
      status_code Unauthorized = 401 \<and> response_body Unauthorized = None"
      by (simp add: runQuery_unauthorized)
  qed
  have b: "(\<exists>key. map_of (headers req) ''apikey'' = Some key \<and> key \<in> api_keys) \<and>
    body req = Some j \<and> request_query j = Some q \<and> q \<noteq> [] \<longrightarrow>
      (\<forall>r. snd (qa P chain es q) = Inr r \<longrightarrow>
         snd (runQuery api_keys P chain es req) = Success r \<and>
         status_code (Success r) = 200 \<and>
         response_body (Success r) = Some (json_of_QueryResponse r) \<and>
         valid_QueryResponse (json_of_QueryResponse r)) \<and>
      (\<forall>msg. snd (qa P chain es q) = Inl msg \<longrightarrow>
         snd (runQuery api_keys P chain es req) = ServerError msg \<and>
         status_code (ServerError msg) = 500 \<and>
         response_body (ServerError msg) = Some (JObject [(''detail'', JString msg)]) \<and>
         valid_ErrorResponse (JObject [(''detail'', JString msg)]))"
  proof
    assume h: "(\<exists>key. map_of (headers req) ''apikey'' = Some key \<and> key \<in> api_keys) \<and>
      body req = Some j \<and> request_query j = Some q \<and> q \<noteq> []"
    then have au: "authorized api_keys req"
      by (auto simp: authorized_def)
    from h have bj: "body req = Some j" and rq: "request_query j = Some q" and ne: "q \<noteq> []"
      by simp_all
    show "(\<forall>r. snd (qa P chain es q) = Inr r \<longrightarrow>
         snd (runQuery api_keys P chain es req) = Success r \<and>
         status_code (Success r) = 200 \<and>
         response_body (Success r) = Some (json_of_QueryResponse r) \<and>
         valid_QueryResponse (json_of_QueryResponse r)) \<and>
      (\<forall>msg. snd (qa P chain es q) = Inl msg \<longrightarrow>
         snd (runQuery api_keys P chain es req) = ServerError msg \<and>
         status_code (ServerError msg) = 500 \<and>
         response_body (ServerError msg) = Some (JObject [(''detail'', JString msg)]) \<and>
         valid_ErrorResponse (JObject [(''detail'', JString msg)]))"
      using runQuery_Success [OF au bj rq ne] runQuery_ServerError [OF au bj rq ne]
        valid_json_of_QueryResponse valid_json_of_ErrorResponse
      by (simp add: json_of_ErrorResponse_def)
  qed
  from a b show ?thesis by blast
qed

theorem runQuery_responses_witness:
  "runQuery {''secret''} (stub_providers [1, 0] ''answer'') test_chain (Map.empty(indexName 7 \<mapsto> []))
     \<lparr>headers = [], body = Some (JObject [(''query'', JString ''capital of Japan?'')])\<rparr> = ([], Unauthorized) \<and>
   runQuery {''secret''} (stub_providers [1, 0] ''answer'') test_chain (Map.empty(indexName 7 \<mapsto> []))
     \<lparr>headers = [(''apikey'', ''guess'')], body = Some (JObject [(''query'', JString ''capital of Japan?'')])\<rparr>
     = ([], Unauthorized) \<and>
   snd (runQuery {''secret''} (stub_providers [1, 0] ''answer'') test_chain (Map.empty(indexName 7 \<mapsto> []))
     \<lparr>headers = [(''apikey'', ''secret'')], body = Some (JObject [(''query'', JString ''capital of Japan?'')])\<rparr>)
     = Success \<lparr>query = ''capital of Japan?'', result = ''answer'', source_documents = []\<rparr> \<and>
   snd (runQuery {''secret''} (failing_llm [1, 0] ''model unavailable'') test_chain (Map.empty(indexName 7 \<mapsto> []))
     \<lparr>headers = [(''apikey'', ''secret'')], body = Some (JObject [(''query'', JString ''capital of Japan?'')])\<rparr>)
     = ServerError ''model unavailable''"
proof -
  let ?j = "JObject [(''query'', JString ''capital of Japan?'')]"
  let ?es = "Map.empty(indexName 7 \<mapsto> [])"
  have q: "request_query ?j = Some ''capital of Japan?''"
    by (simp add: request_query_def)
  have ok: "snd (qa (stub_providers [1, 0] ''answer'') test_chain ?es ''capital of Japan?'')
      = Inr \<lparr>query = ''capital of Japan?'', result = ''answer'', source_documents = []\<rparr>"
    by (simp add: qa_def es_search_def similarity_search_def test_chain_def qa_chain_simps
        knowledge_base_def stub_providers_def Let_def)
  have ko: "snd (qa (failing_llm [1, 0] ''model unavailable'') test_chain ?es ''capital of Japan?'')
      = Inl ''model unavailable''"
    by (simp add: qa_def es_search_def similarity_search_def test_chain_def qa_chain_simps
        knowledge_base_def failing_llm_def Let_def)
  have a: "runQuery {''secret''} (stub_providers [1, 0] ''answer'') test_chain ?es
     \<lparr>headers = [], body = Some ?j\<rparr> = ([], Unauthorized)"
    using runQuery_responses [where req = "\<lparr>headers = [], body = Some ?j\<rparr>" and api_keys = "{''secret''}"
        and P = "stub_providers [1, 0] ''answer''" and chain = test_chain and es = ?es]
    by simp
  have b: "runQuery {''secret''} (stub_providers [1, 0] ''answer'') test_chain ?es
     \<lparr>headers = [(''apikey'', ''guess'')], body = Some ?j\<rparr> = ([], Unauthorized)"
    using runQuery_responses [where req = "\<lparr>headers = [(''apikey'', ''guess'')], body = Some ?j\<rparr>"
        and api_keys = "{''secret''}" and P = "stub_providers [1, 0] ''answer''" and chain = test_chain and es = ?es]
    by simp
  have c: "snd (runQuery {''secret''} (stub_providers [1, 0] ''answer'') test_chain ?es
     \<lparr>headers = [(''apikey'', ''secret'')], body = Some ?j\<rparr>)
     = Success \<lparr>query = ''capital of Japan?'', result = ''answer'', source_documents = []\<rparr>"
    using runQuery_responses [where req = "\<lparr>headers = [(''apikey'', ''secret'')], body = Some ?j\<rparr>"
        and api_keys = "{''secret''}" and P = "stub_providers [1, 0] ''answer''" and chain = test_chain and es = ?es
        and j = ?j and q = "''capital of Japan?''"] q ok
    by simp
  have d: "snd (runQuery {''secret''} (failing_llm [1, 0] ''model unavailable'') test_chain ?es
     \<lparr>headers = [(''apikey'', ''secret'')], body = Some ?j\<rparr>)
     = ServerError ''model unavailable''"
    using runQuery_responses [where req = "\<lparr>headers = [(''apikey'', ''secret'')], body = Some ?j\<rparr>"
        and api_keys = "{''secret''}" and P = "failing_llm [1, 0] ''model unavailable''" and chain = test_chain
        and es = ?es and j = ?j and q = "''capital of Japan?''"] q ko
    by simp
  from a b c d show ?thesis by blast
qed

text \<open>
  C2: a request without a body, or whose body is an object without the member \<open>query\<close>
  or with the empty string as its \<open>query\<close>, is rejected with a status of the 400 class,
  and no provider is called: no embedding, no search, no call of the language model.
\<close>

theorem runQuery_rejects_empty_or_missing_query:
  assumes "body req = None \<or>
           (\<exists>ms. body req = Some (JObject ms) \<and>
              (map_of ms ''query'' = None \<or> map_of ms ''query'' = Some (JString [])))"
  shows "fst (runQuery api_keys P chain es req) = [] \<and>
         snd (runQuery api_keys P chain es req) = (if authorized api_keys req then Rejected else Unauthorized) \<and>
         400 \<le> status_code (snd (runQuery api_keys P chain es req)) \<and>
         status_code (snd (runQuery api_keys P chain es req)) < 500 \<and>
         response_body (snd (runQuery api_keys P chain es req)) = None"
  using assms
  by (auto simp: runQuery_def valid_QueryRequest_def required_property_def request_query_def)

theorem runQuery_rejects_empty_or_missing_query_witness:
  "runQuery {''secret''} (stub_providers [1, 0] ''answer'') test_chain (Map.empty(indexName 7 \<mapsto> []))
     \<lparr>headers = [(''apikey'', ''secret'')], body = Some (JObject [(''query'', JString [])])\<rparr>
     = ([], Rejected) \<and>
   runQuery {''secret''} (stub_providers [1, 0] ''answer'') test_chain (Map.empty(indexName 7 \<mapsto> []))
     \<lparr>headers = [(''apikey'', ''secret'')], body = Some (JObject [(''question'', JString ''capital of Japan?'')])\<rparr>
     = ([], Rejected)"
proof -
  let ?empty = "\<lparr>headers = [(''apikey'', ''secret'')], body = Some (JObject [(''query'', JString [])])\<rparr>"
  let ?missing = "\<lparr>headers = [(''apikey'', ''secret'')],
                   body = Some (JObject [(''question'', JString ''capital of Japan?'')])\<rparr>"
  have he: "body ?empty = None \<or>
           (\<exists>ms. body ?empty = Some (JObject ms) \<and>
              (map_of ms ''query'' = None \<or> map_of ms ''query'' = Some (JString [])))"
    by simp
  have hm: "body ?missing = None \<or>
           (\<exists>ms. body ?missing = Some (JObject ms) \<and>
              (map_of ms ''query'' = None \<or> map_of ms ''query'' = Some (JString [])))"
    by simp
  have ae: "authorized {''secret''} ?empty" and am: "authorized {''secret''} ?missing"
    by (simp_all add: authorized_def)
  have e: "runQuery {''secret''} (stub_providers [1, 0] ''answer'') test_chain (Map.empty(indexName 7 \<mapsto> []))
      ?empty = ([], Rejected)"
    using runQuery_rejects_empty_or_missing_query [OF he, where api_keys = "{''secret''}"
        and P = "stub_providers [1, 0] ''answer''" and chain = test_chain
        and es = "Map.empty(indexName 7 \<mapsto> [])"] ae
    by (simp add: prod_eq_iff)
  have m: "runQuery {''secret''} (stub_providers [1, 0] ''answer'') test_chain (Map.empty(indexName 7 \<mapsto> []))
      ?missing = ([], Rejected)"
    using runQuery_rejects_empty_or_missing_query [OF hm, where api_keys = "{''secret''}"
        and P = "stub_providers [1, 0] ''answer''" and chain = test_chain
        and es = "Map.empty(indexName 7 \<mapsto> [])"] am
    by (simp add: prod_eq_iff)
  from e m show ?thesis by blast
qed

end
